theory Spec2Isabelle
  imports Main "HOL-Library.AList" "HOL-Library.Char_ord" "HOL-Library.List_Lexorder"
begin

section \<open>The configuration parser, as the program uses it\<close>

text \<open>
  The program keeps its configuration in a \<^verbatim>\<open>configparser.ConfigParser()\<close> built with
  the default settings. The parser is library code; this section models the part of its
  mapping protocol that \<^verbatim>\<open>robotpy.py\<close> calls: named sections holding ordered
  key/value dictionaries, the \<^verbatim>\<open>DEFAULT\<close> section whose keys show through every other
  section, and \<^verbatim>\<open>optionxform\<close>, which lower-cases every key before it is looked up,
  stored or removed (section names are left as they are). Values are the stored strings:
  the parser's value interpolation (the \<^verbatim>\<open>%\<close> syntax) is outside this model.
  A Python dictionary keeps its keys distinct and in insertion order; an association
  list updated with \<^const>\<open>AList.update\<close> does the same.
\<close>

type_synonym dict = "(string \<times> string) list"

record config =
  defaults :: dict
  sections :: "(string \<times> dict) list"

datatype error =
    SystemExit int
  | KeyError string
  | TypeError
  | ValueError
  | OSError
  | ParsingError
  | NameError

definition empty_config :: config where
  "empty_config = \<lparr>defaults = [], sections = []\<rparr>"

definition default_section :: string where
  "default_section = ''DEFAULT''"

definition lower_char :: "char \<Rightarrow> char" where
  "lower_char c =
     (if CHR ''A'' \<le> c \<and> c \<le> CHR ''Z'' then char_of (of_char c + (32::nat)) else c)"

definition optionxform :: "string \<Rightarrow> string" where
  "optionxform k = map lower_char k"

definition keys :: "dict \<Rightarrow> string list" where
  "keys d = map fst d"

definition has_section :: "config \<Rightarrow> string \<Rightarrow> bool" where
  "has_section c s = (map_of (sections c) s \<noteq> None)"

text \<open>\<^verbatim>\<open>key in config\<close>\<close>

definition contains :: "config \<Rightarrow> string \<Rightarrow> bool" where
  "contains c s = (s = default_section \<or> has_section c s)"

text \<open>\<^verbatim>\<open>config[key]\<close>: the section proxy, which is the section's name, or KeyError.\<close>

definition getitem :: "config \<Rightarrow> string \<Rightarrow> error + string" where
  "getitem c s =
     (if s \<noteq> default_section \<and> \<not> has_section c s then Inl (KeyError s) else Inr s)"

text \<open>The dictionary behind a section name (empty when there is none).\<close>

definition sectdict :: "config \<Rightarrow> string \<Rightarrow> dict" where
  "sectdict c s = (case map_of (sections c) s of None \<Rightarrow> [] | Some d \<Rightarrow> d)"

text \<open>
  \<^verbatim>\<open>list(config[s])\<close> and \<^verbatim>\<open>len(config[s])\<close>: the section's own keys followed by
  the default keys it does not have.
\<close>

definition options :: "config \<Rightarrow> string \<Rightarrow> string list" where
  "options c s =
     (if s = default_section then keys (defaults c)
      else keys (sectdict c s) @ filter (\<lambda>k. k \<notin> set (keys (sectdict c s))) (keys (defaults c)))"

text \<open>
  \<^verbatim>\<open>key in config[s]\<close>. The parser's \<^verbatim>\<open>has_option\<close>, \<^verbatim>\<open>set\<close> and
  \<^verbatim>\<open>remove_option\<close> send an empty section name to the defaults
  (\<^verbatim>\<open>if not section or section == self.default_section\<close>).
\<close>

definition is_default :: "string \<Rightarrow> bool" where
  "is_default s = (s = [] \<or> s = default_section)"

definition has_option :: "config \<Rightarrow> string \<Rightarrow> string \<Rightarrow> bool" where
  "has_option c s k =
     (if is_default s then optionxform k \<in> set (keys (defaults c))
      else if \<not> has_section c s then False
      else optionxform k \<in> set (keys (sectdict c s)) \<or> optionxform k \<in> set (keys (defaults c)))"

text \<open>\<^verbatim>\<open>config[s][key]\<close>\<close>

definition get_option :: "config \<Rightarrow> string \<Rightarrow> string \<Rightarrow> error + string" where
  "get_option c s k =
     (if \<not> has_option c s k then Inl (KeyError k)
      else case map_of (sectdict c s) (optionxform k) of
             Some v \<Rightarrow> Inr v
           | None \<Rightarrow> (case map_of (defaults c) (optionxform k) of
                        Some v \<Rightarrow> Inr v
                      | None \<Rightarrow> Inl (KeyError k)))"

text \<open>\<^verbatim>\<open>config[s][key] = value\<close>, on a section that exists\<close>

definition set_option :: "config \<Rightarrow> string \<Rightarrow> string \<Rightarrow> string \<Rightarrow> config" where
  "set_option c s k v =
     (if is_default s then c\<lparr>defaults := AList.update (optionxform k) v (defaults c)\<rparr>
      else c\<lparr>sections := AList.update s (AList.update (optionxform k) v (sectdict c s)) (sections c)\<rparr>)"

text \<open>
  \<^verbatim>\<open>del config[s][key]\<close>: the key has to be visible in the section and stored in the
  section itself; a key that only shows through from the defaults raises KeyError.
\<close>

definition del_option :: "config \<Rightarrow> string \<Rightarrow> string \<Rightarrow> error + config" where
  "del_option c s k =
     (if \<not> has_option c s k then Inl (KeyError k)
      else if is_default s
        then Inr (c\<lparr>defaults := AList.delete (optionxform k) (defaults c)\<rparr>)
      else if optionxform k \<in> set (keys (sectdict c s))
        then Inr (c\<lparr>sections := AList.update s (AList.delete (optionxform k) (sectdict c s)) (sections c)\<rparr>)
      else Inl (KeyError k))"

text \<open>\<^verbatim>\<open>del config[s]\<close>\<close>

definition delitem :: "config \<Rightarrow> string \<Rightarrow> error + config" where
  "delitem c s =
     (if s = default_section then Inl ValueError
      else if \<not> has_section c s then Inl (KeyError s)
      else Inr (c\<lparr>sections := AList.delete s (sections c)\<rparr>))"

text \<open>
  \<^verbatim>\<open>config[s] = items\<close>: the section is emptied (or created at the end), then every
  item is stored under its lower-cased key. The program's three callers pass a one-entry
  dictionary, the empty dictionary, or the items of another section, so the keys are
  distinct and the parser's duplicate check does not fire.
\<close>

definition clear_section :: "config \<Rightarrow> string \<Rightarrow> config" where
  "clear_section c s =
     (if s = default_section then c\<lparr>defaults := []\<rparr>
      else c\<lparr>sections := AList.update s [] (sections c)\<rparr>)"

definition setitem :: "config \<Rightarrow> string \<Rightarrow> dict \<Rightarrow> config" where
  "setitem c s items = foldl (\<lambda>c' (k, v). set_option c' s k v) (clear_section c s) items"

text \<open>\<^verbatim>\<open>config[s].items()\<close>: every visible key with the value a lookup gives.\<close>

definition section_items :: "config \<Rightarrow> string \<Rightarrow> dict" where
  "section_items c s =
     map (\<lambda>k. (k, case get_option c s k of Inr v \<Rightarrow> v | Inl _ \<Rightarrow> [])) (options c s)"


section \<open>Process state\<close>

text \<open>
  A directory is the list of its component names below the filesystem root, the root
  being the empty list. A file is addressed by its directory followed by its name. The
  marker file's text is taken as the configuration it parses to.
\<close>

type_synonym path = "string list"

datatype content = Config_text config | Text string | Robot_template

datatype node = Dir | File content

datatype proc = Python "string list" | Command "string list"

datatype severity = Output | Info | Warning | Error | Fatal

datatype message =
    Not_in_project
  | Cannot_load_packages
  | Installing string
  | Install_failed
  | Downloading string
  | Download_failed
  | Not_a_directory
  | Marker_exists path
  | Main_exists string
  | Downloading_python
  | Download_python_failed
  | Downloading_robotpy
  | Download_robotpy_failed
  | Cannot_remove_robotpy
  | Not_installed string
  | Not_registered string
  | Requirements_updated
  | Updating_remote
  | Update_remote_failed
  | Deploying_code string
  | Deploy_code_failed
  | Invalid_field string
  | Cannot_change_requirements
  | Printed string

text \<open>
  The globals \<^verbatim>\<open>config\<close> and \<^verbatim>\<open>packages\<close> start as \<^verbatim>\<open>None\<close>. External processes
  are opaque: the world gives each call its return code and the lines of its standard
  output from the calls made before it, and every call is appended to \<open>procs\<close>.
  Every file handed to \<^verbatim>\<open>config.read\<close> is appended to \<open>parsed\<close>, and every file
  opened for writing to \<open>written\<close>, with what was written.
\<close>

record state =
  cwd :: path
  fs :: "path \<Rightarrow> node option"
  config :: "config option"
  packages :: "(string \<rightharpoonup> string) option"
  procs :: "proc list"
  console :: "(severity \<times> message) list"
  parsed :: "path list"
  written :: "(path \<times> content) list"

type_synonym world = "proc list \<Rightarrow> proc \<Rightarrow> int \<times> string list"

type_synonym 'a result = "(error + 'a) \<times> state"

definition msg :: "message \<Rightarrow> state \<Rightarrow> state" where
  "msg m s = s\<lparr>console := console s @ [(Info, m)]\<rparr>"

definition warn :: "message \<Rightarrow> state \<Rightarrow> state" where
  "warn m s = s\<lparr>console := console s @ [(Warning, m)]\<rparr>"

definition error :: "message \<Rightarrow> state \<Rightarrow> state" where
  "error m s = s\<lparr>console := console s @ [(Error, m)]\<rparr>"

definition fatal :: "message \<Rightarrow> state \<Rightarrow> 'a result" where
  "fatal m s = (Inl (SystemExit 1), s\<lparr>console := console s @ [(Fatal, m)]\<rparr>)"

definition run :: "world \<Rightarrow> proc \<Rightarrow> state \<Rightarrow> (int \<times> string list) \<times> state" where
  "run orc p s = (orc (procs s) p, s\<lparr>procs := procs s @ [p]\<rparr>)"

definition python :: "world \<Rightarrow> string list \<Rightarrow> state \<Rightarrow> (int \<times> string list) \<times> state" where
  "python orc args s = run orc (Python args) s"

definition rpinst :: "world \<Rightarrow> string list \<Rightarrow> state \<Rightarrow> (int \<times> string list) \<times> state" where
  "rpinst orc args s = python orc ([''-m'', ''robotpy_installer''] @ args) s"

definition isfile :: "state \<Rightarrow> string \<Rightarrow> bool" where
  "isfile s name = (case fs s (cwd s @ [name]) of Some (File _) \<Rightarrow> True | _ \<Rightarrow> False)"

definition marker :: string where
  "marker = ''.robotpy''"


section \<open>Project locator\<close>

text \<open>
  \<^verbatim>\<open>
  def move_to_robotpy_dir() -> None:
      while not os.path.isfile(".robotpy"):
          os.chdir("..")
          if os.path.dirname(os.getcwd()) == os.getcwd():
              fatal("Current directory is not in a robotpy project")
  \<close>
  \<^verbatim>\<open>os.chdir("..")\<close> drops the last component and stays at the root;
  \<^verbatim>\<open>os.path.dirname\<close> of a directory is its parent, and the root is its own parent.
\<close>

definition dirname :: "path \<Rightarrow> path" where
  "dirname p = butlast p"

definition chdir_parent :: "state \<Rightarrow> state" where
  "chdir_parent s = s\<lparr>cwd := butlast (cwd s)\<rparr>"

function move_to_robotpy_dir :: "state \<Rightarrow> unit result" where
  "move_to_robotpy_dir s =
     (if isfile s marker then (Inr (), s)
      else if dirname (cwd (chdir_parent s)) = cwd (chdir_parent s)
        then fatal Not_in_project (chdir_parent s)
      else move_to_robotpy_dir (chdir_parent s))"
  by pat_completeness auto
termination
proof (relation "measure (\<lambda>s. length (cwd s))")
  show "wf (measure (\<lambda>s. length (cwd s)))" by simp
next
  fix s :: state
  assume "dirname (cwd (chdir_parent s)) \<noteq> cwd (chdir_parent s)"
  then have "cwd s \<noteq> []"
    by (auto simp: dirname_def chdir_parent_def)
  then show "(chdir_parent s, s) \<in> measure (\<lambda>s. length (cwd s))"
    by (simp add: chdir_parent_def)
qed

declare move_to_robotpy_dir.simps [simp del]


section \<open>Configuration and package caches\<close>

text \<open>
  \<^verbatim>\<open>
  config = None
  def load_config():
      global config
      if config is None:
          config = configparser.ConfigParser()
          config.read(".robotpy")
      return config
  \<close>
  \<^verbatim>\<open>read\<close> skips a file it cannot open, so a missing marker gives the empty
  configuration; the name is resolved in the current directory at the time of the call.
\<close>

definition read_marker :: "state \<Rightarrow> error + config" where
  "read_marker s =
     (case fs s (cwd s @ [marker]) of
        Some (File (Config_text c)) \<Rightarrow> Inr c
      | Some (File _) \<Rightarrow> Inl ParsingError
      | _ \<Rightarrow> Inr empty_config)"

definition load_config :: "state \<Rightarrow> config result" where
  "load_config s =
     (case config s of
        Some c \<Rightarrow> (Inr c, s)
      | None \<Rightarrow>
          (case read_marker s of
             Inl e \<Rightarrow>
               (Inl e, s\<lparr>config := Some empty_config, parsed := parsed s @ [cwd s @ [marker]]\<rparr>)
           | Inr c \<Rightarrow>
               (Inr c, s\<lparr>config := Some c, parsed := parsed s @ [cwd s @ [marker]]\<rparr>)))"

text \<open>
  The object a handler's local \<^verbatim>\<open>config\<close> refers to after \<^verbatim>\<open>load_config()\<close>: the
  global's value. Handlers mutate it in place, which the model writes as an update of
  the global.
\<close>

definition the_config :: "state \<Rightarrow> config" where
  "the_config s = (case config s of Some c \<Rightarrow> c | None \<Rightarrow> empty_config)"

definition put_config :: "config \<Rightarrow> state \<Rightarrow> state" where
  "put_config c s = s\<lparr>config := Some c\<rparr>"

text \<open>
  \<^verbatim>\<open>
  reqs = res.stdout.splitlines()
  splits = [desc.split("==") for desc in reqs]
  reqs = {req[0]: req[1] for req in splits if len(req) == 2}
  \<close>
\<close>

fun split_eqeq :: "string \<Rightarrow> string \<Rightarrow> string list" where
  "split_eqeq acc [] = [acc]"
| "split_eqeq acc [c] = [acc @ [c]]"
| "split_eqeq acc (c # d # ds) =
     (if c = CHR ''='' \<and> d = CHR ''='' then acc # split_eqeq [] ds
      else split_eqeq (acc @ [c]) (d # ds))"

fun pair_of :: "string list \<Rightarrow> (string \<times> string) list" where
  "pair_of [a, b] = [(a, b)]"
| "pair_of _ = []"

definition parse_freeze :: "string list \<Rightarrow> (string \<rightharpoonup> string)" where
  "parse_freeze out = map_of (rev (concat (map (\<lambda>desc. pair_of (split_eqeq [] desc)) out)))"

definition load_packages :: "world \<Rightarrow> bool \<Rightarrow> state \<Rightarrow> (string \<rightharpoonup> string) result" where
  "load_packages w refresh s =
     (let reload =
        (case python w [''-m'', ''pip'', ''freeze''] s of
           ((rc, out), s1) \<Rightarrow>
             if rc \<noteq> 0 then fatal Cannot_load_packages s1
             else (Inr (parse_freeze out), s1\<lparr>packages := Some (parse_freeze out)\<rparr>))
      in case packages s of
           None \<Rightarrow> reload
         | Some pk \<Rightarrow> if refresh then reload else (Inr pk, s))"


section \<open>Installing packages\<close>

definition is_robotpy_addon :: "string \<Rightarrow> bool" where
  "is_robotpy_addon name =
     (name \<in> set [''ctre'', ''navx'', ''photonvision'', ''pathplannerlib'', ''rev'', ''apriltag'',
                  ''commands2'', ''commands-v2'', ''cscore'', ''romi'', ''sim''])"

definition format_robotpy_addon :: "string \<Rightarrow> string" where
  "format_robotpy_addon name =
     ''robotpy-'' @ (if name = ''commands2'' then ''commands-v2'' else name)"

definition expand_names :: "string list \<Rightarrow> string list" where
  "expand_names names =
     map (\<lambda>name. if is_robotpy_addon name then format_robotpy_addon name else name) names"

text \<open>
  \<^verbatim>\<open>
  if pkg not in config["requirements"] or config["requirements"][pkg] < packages[pkg]:
      config["requirements"][pkg] = packages[pkg]
  \<close>
  The comparison is Python's on strings, by code point, which is the lexicographic order
  of \<^typ>\<open>string\<close>.
\<close>

definition record_version :: "string \<Rightarrow> (string \<rightharpoonup> string) \<Rightarrow> state \<Rightarrow> unit result" where
  "record_version pkg pk s =
     (case getitem (the_config s) ''requirements'' of
        Inl e \<Rightarrow> (Inl e, s)
      | Inr req \<Rightarrow>
          if \<not> has_option (the_config s) req pkg then
            (case pk pkg of
               None \<Rightarrow> (Inl (KeyError pkg), s)
             | Some v \<Rightarrow> (Inr (), put_config (set_option (the_config s) req pkg v) s))
          else
            (case get_option (the_config s) req pkg of
               Inl e \<Rightarrow> (Inl e, s)
             | Inr old \<Rightarrow>
                 (case pk pkg of
                    None \<Rightarrow> (Inl (KeyError pkg), s)
                  | Some v \<Rightarrow>
                      if old < v then (Inr (), put_config (set_option (the_config s) req pkg v) s)
                      else (Inr (), s))))"

text \<open>One turn of the loop of \<^verbatim>\<open>install_package\<close>.\<close>

definition install_one :: "world \<Rightarrow> bool \<Rightarrow> string \<Rightarrow> state \<Rightarrow> unit result" where
  "install_one w download pkg s =
     (case python w [''-m'', ''pip'', ''install'', ''--upgrade'', pkg] (msg (Installing pkg) s) of
        ((rc, out), s1) \<Rightarrow>
          if rc \<noteq> 0 then (Inr (), error Install_failed s1)
          else if \<not> download then (Inr (), s1)
          else
            (case rpinst w [''download'', pkg] (msg (Downloading pkg) s1) of
               ((rc', out'), s2) \<Rightarrow>
                 if rc' \<noteq> 0 then (Inr (), error Download_failed s2)
                 else
                   (case load_packages w True s2 of
                      (Inl e, s3) \<Rightarrow> (Inl e, s3)
                    | (Inr pk, s3) \<Rightarrow> record_version pkg pk s3)))"

fun install_loop :: "world \<Rightarrow> bool \<Rightarrow> string list \<Rightarrow> state \<Rightarrow> unit result" where
  "install_loop w download [] s = (Inr (), s)"
| "install_loop w download (pkg # pkgs) s =
     (case install_one w download pkg s of
        (Inl e, s1) \<Rightarrow> (Inl e, s1)
      | (Inr _, s1) \<Rightarrow> install_loop w download pkgs s1)"

definition install_package :: "world \<Rightarrow> string list \<Rightarrow> bool \<Rightarrow> state \<Rightarrow> unit result" where
  "install_package w pkgs download s =
     (if length pkgs = 0 then (Inr (), s)
      else case load_config s of
             (Inl e, s1) \<Rightarrow> (Inl e, s1)
           | (Inr _, s1) \<Rightarrow> install_loop w download pkgs s1)"


section \<open>Command handlers\<close>

subsection \<open>initialize\<close>

text \<open>
  The directory argument is a list of component names below the current directory.
  \<^verbatim>\<open>os.makedirs(dir, exist_ok=True)\<close> creates every missing component and raises when
  one of them is a file.
\<close>

fun makedirs :: "path \<Rightarrow> string list \<Rightarrow> (path \<Rightarrow> node option) \<Rightarrow> error + (path \<Rightarrow> node option)" where
  "makedirs base [] f = Inr f"
| "makedirs base (d # ds) f =
     (case f (base @ [d]) of
        None \<Rightarrow> makedirs (base @ [d]) ds (f(base @ [d] \<mapsto> Dir))
      | Some Dir \<Rightarrow> makedirs (base @ [d]) ds f
      | Some (File _) \<Rightarrow> Inl OSError)"

definition resolve_target :: "path option \<Rightarrow> state \<Rightarrow> path result" where
  "resolve_target directory s =
     (case directory of
        None \<Rightarrow> (Inr (cwd s), s)
      | Some d \<Rightarrow>
          if fs s (cwd s @ d) \<noteq> None \<and> fs s (cwd s @ d) \<noteq> Some Dir
            then fatal Not_a_directory s
          else (case makedirs (cwd s) d (fs s) of
                  Inl e \<Rightarrow> (Inl e, s)
                | Inr f \<Rightarrow> (Inr (cwd s @ d), s\<lparr>fs := f\<rparr>)))"

definition write_file :: "string \<Rightarrow> content \<Rightarrow> state \<Rightarrow> unit result" where
  "write_file name body s =
     (if fs s (cwd s @ [name]) = Some Dir then (Inl OSError, s)
      else (Inr (), s\<lparr>fs := (fs s)(cwd s @ [name] \<mapsto> File body),
                      written := written s @ [(cwd s @ [name], body)]\<rparr>))"

definition auth_text :: "string \<Rightarrow> string" where
  "auth_text host = ''[auth]'' @ [CHR 0x0A] @ ''hostname = '' @ host @ [CHR 0x0A]"

text \<open>
  \<^verbatim>\<open>
  config = load_config()
  if os.path.isfile(".robotpy"):
      msg("{} already exists. ...")
  else:
      config["requirements"] = {"robotpy": packages["robotpy"]}
  config["execution"] = {"main": args.main}
  \<close>
  \<^verbatim>\<open>packages\<close> is not assigned in \<^verbatim>\<open>initialize\<close>, so the name is the module's
  global; subscripting \<^verbatim>\<open>None\<close> raises TypeError.
\<close>

definition init_requirements :: "path \<Rightarrow> state \<Rightarrow> unit result" where
  "init_requirements target s =
     (if isfile s marker then (Inr (), msg (Marker_exists target) s)
      else case packages s of
             None \<Rightarrow> (Inl TypeError, s)
           | Some pk \<Rightarrow>
               (case pk ''robotpy'' of
                  None \<Rightarrow> (Inl (KeyError ''robotpy''), s)
                | Some v \<Rightarrow>
                    (Inr (), put_config (setitem (the_config s) ''requirements'' [(''robotpy'', v)]) s)))"

definition init_host :: "string option \<Rightarrow> state \<Rightarrow> unit result" where
  "init_host host s =
     (case host of
        None \<Rightarrow> (Inr (), s)
      | Some h \<Rightarrow>
          (case write_file ''.deploy_cfg'' (Text (auth_text h)) s of
             (Inl e, s1) \<Rightarrow> (Inl e, s1)
           | (Inr _, s1) \<Rightarrow>
               (case write_file ''.installer_cfg'' (Text (auth_text h)) s1 of
                  (Inl e, s2) \<Rightarrow> (Inl e, s2)
                | (Inr _, s2) \<Rightarrow>
                    (Inr (), put_config (setitem (the_config s2) ''auth'' [(''hostname'', h)]) s2))))"

definition init_main_file :: "bool \<Rightarrow> string \<Rightarrow> state \<Rightarrow> unit result" where
  "init_main_file bare main_file s =
     (if \<not> bare then
        (if isfile s main_file then (Inr (), error (Main_exists main_file) s)
         else write_file main_file Robot_template s)
      else (Inr (), s))"

definition init_downloads :: "world \<Rightarrow> string list \<Rightarrow> state \<Rightarrow> unit result" where
  "init_downloads w pkgs s =
     (case rpinst w [''download-python''] (msg Downloading_python s) of
        ((rc, out), s1) \<Rightarrow>
          if rc \<noteq> 0 then fatal Download_python_failed s1
          else
            (case rpinst w [''download'', ''robotpy''] (msg Downloading_robotpy s1) of
               ((rc', out'), s2) \<Rightarrow>
                 if rc' \<noteq> 0 then fatal Download_robotpy_failed s2
                 else install_package w (expand_names pkgs) True s2))"

definition initialize ::
  "world \<Rightarrow> path option \<Rightarrow> string \<Rightarrow> string option \<Rightarrow> bool \<Rightarrow> bool \<Rightarrow> string list \<Rightarrow> state \<Rightarrow> unit result" where
  "initialize w directory main_file host bare git pkgs s =
     (case resolve_target directory s of
        (Inl e, s1) \<Rightarrow> (Inl e, s1)
      | (Inr target, s1) \<Rightarrow>
     (case load_config (s1\<lparr>cwd := target\<rparr>) of
        (Inl e, s2) \<Rightarrow> (Inl e, s2)
      | (Inr _, s2) \<Rightarrow>
     (case init_requirements target s2 of
        (Inl e, s3) \<Rightarrow> (Inl e, s3)
      | (Inr _, s3) \<Rightarrow>
     (case init_host host (put_config (setitem (the_config s3) ''execution'' [(''main'', main_file)]) s3) of
        (Inl e, s4) \<Rightarrow> (Inl e, s4)
      | (Inr _, s4) \<Rightarrow>
     (case init_main_file bare main_file s4 of
        (Inl e, s5) \<Rightarrow> (Inl e, s5)
      | (Inr _, s5) \<Rightarrow>
          init_downloads w pkgs (if git then snd (run w (Command [''git'', ''init'']) s5) else s5))))))"

subsection \<open>remove\<close>

fun remove_loop :: "string list \<Rightarrow> state \<Rightarrow> unit result" where
  "remove_loop [] s = (Inr (), s)"
| "remove_loop (pkg # pkgs) s =
     (if pkg = ''robotpy'' then remove_loop pkgs (error Cannot_remove_robotpy s)
      else case getitem (the_config s) ''requirements'' of
             Inl e \<Rightarrow> (Inl e, s)
           | Inr req \<Rightarrow>
               if has_option (the_config s) req pkg then
                 (case del_option (the_config s) req pkg of
                    Inl e \<Rightarrow> (Inl e, s)
                  | Inr c \<Rightarrow> remove_loop pkgs (put_config c s))
               else remove_loop pkgs (error (Not_installed pkg) s))"

definition remove :: "string list \<Rightarrow> state \<Rightarrow> unit result" where
  "remove pkgs s =
     (case move_to_robotpy_dir s of
        (Inl e, s1) \<Rightarrow> (Inl e, s1)
      | (Inr _, s1) \<Rightarrow>
          (case load_config s1 of
             (Inl e, s2) \<Rightarrow> (Inl e, s2)
           | (Inr _, s2) \<Rightarrow> remove_loop pkgs s2))"

subsection \<open>install\<close>

definition install :: "world \<Rightarrow> string list \<Rightarrow> bool \<Rightarrow> state \<Rightarrow> unit result" where
  "install w pkgs download s =
     (case move_to_robotpy_dir s of
        (Inl e, s1) \<Rightarrow> (Inl e, s1)
      | (Inr _, s1) \<Rightarrow> install_package w (expand_names pkgs) download s1)"

subsection \<open>update\<close>

text \<open>
  \<^verbatim>\<open>
  pkgs = args.packages
  if len(pkgs) == 0:
      pkgs = [pkg for pkg in config["requirements"]]
      pkgs = ["robotpy"] + pkgs
  for pkg in pkgs:
      if pkg not in config["requirements"]:
          warn(...)
  pkgs = [pkg for pkg in pkgs if pkg in config["requirements"]]
  install_package(pkgs, download=args.download)
  \<close>
\<close>

definition update_default :: "config \<Rightarrow> string list \<Rightarrow> error + string list" where
  "update_default c pkgs =
     (if length pkgs = 0 then
        (case getitem c ''requirements'' of
           Inl e \<Rightarrow> Inl e
         | Inr req \<Rightarrow> Inr (''robotpy'' # options c req))
      else Inr pkgs)"

fun update_warn :: "string list \<Rightarrow> state \<Rightarrow> unit result" where
  "update_warn [] s = (Inr (), s)"
| "update_warn (pkg # pkgs) s =
     (case getitem (the_config s) ''requirements'' of
        Inl e \<Rightarrow> (Inl e, s)
      | Inr req \<Rightarrow>
          update_warn pkgs (if \<not> has_option (the_config s) req pkg then warn (Not_registered pkg) s else s))"

fun update_tracked :: "config \<Rightarrow> string list \<Rightarrow> error + string list" where
  "update_tracked c [] = Inr []"
| "update_tracked c (pkg # pkgs) =
     (case getitem c ''requirements'' of
        Inl e \<Rightarrow> Inl e
      | Inr req \<Rightarrow>
          (case update_tracked c pkgs of
             Inl e \<Rightarrow> Inl e
           | Inr rest \<Rightarrow> Inr (if has_option c req pkg then pkg # rest else rest)))"

definition update :: "world \<Rightarrow> string list \<Rightarrow> bool \<Rightarrow> state \<Rightarrow> unit result" where
  "update w pkgs download s =
     (case move_to_robotpy_dir s of
        (Inl e, s1) \<Rightarrow> (Inl e, s1)
      | (Inr _, s1) \<Rightarrow>
     (case load_config s1 of
        (Inl e, s2) \<Rightarrow> (Inl e, s2)
      | (Inr _, s2) \<Rightarrow>
     (case update_default (the_config s2) pkgs of
        Inl e \<Rightarrow> (Inl e, s2)
      | Inr pkgs1 \<Rightarrow>
     (case update_warn pkgs1 s2 of
        (Inl e, s3) \<Rightarrow> (Inl e, s3)
      | (Inr _, s3) \<Rightarrow>
     (case update_tracked (the_config s3) pkgs1 of
        Inl e \<Rightarrow> (Inl e, s3)
      | Inr pkgs2 \<Rightarrow> install_package w pkgs2 download s3)))))"

subsection \<open>deploy\<close>

text \<open>
  \<^verbatim>\<open>
  deployed = config["requirements.deployed"]
  pkgs = config["requirements"]
  updates = [pkg for pkg in pkgs if pkg not in deployed or deployed[pkg] < pkgs[pkg]]
  \<close>
\<close>

fun deploy_updates :: "config \<Rightarrow> string \<Rightarrow> string \<Rightarrow> string list \<Rightarrow> error + string list" where
  "deploy_updates c deployed pkgs [] = Inr []"
| "deploy_updates c deployed pkgs (pkg # rest) =
     (case (if \<not> has_option c deployed pkg then Inr True
            else case get_option c deployed pkg of
                   Inl e \<Rightarrow> Inl e
                 | Inr d \<Rightarrow>
                     (case get_option c pkgs pkg of
                        Inl e \<Rightarrow> Inl e
                      | Inr v \<Rightarrow> Inr (d < v))) of
        Inl e \<Rightarrow> Inl e
      | Inr b \<Rightarrow>
          (case deploy_updates c deployed pkgs rest of
             Inl e \<Rightarrow> Inl e
           | Inr us \<Rightarrow> Inr (if b then pkg # us else us)))"

definition deploy_lib :: "world \<Rightarrow> state \<Rightarrow> unit result" where
  "deploy_lib w s =
     (case getitem (the_config s) ''requirements.deployed'' of
        Inl e \<Rightarrow> (Inl e, s)
      | Inr deployed \<Rightarrow>
     (case getitem (the_config s) ''requirements'' of
        Inl e \<Rightarrow> (Inl e, s)
      | Inr pkgs \<Rightarrow>
     (case deploy_updates (the_config s) deployed pkgs (options (the_config s) pkgs) of
        Inl e \<Rightarrow> (Inl e, s)
      | Inr updates \<Rightarrow>
          if length updates \<noteq> 0 then
            (case rpinst w (''install'' # updates) (msg Updating_remote (msg Requirements_updated s)) of
               ((rc, out), s1) \<Rightarrow>
                 if rc \<noteq> 0 then fatal Update_remote_failed s1
                 else (Inr (), put_config (setitem (the_config s1) ''requirements.deployed''
                                            (section_items (the_config s1) ''requirements'')) s1))
          else (Inr (), s))))"

definition deploy_code :: "world \<Rightarrow> state \<Rightarrow> unit result" where
  "deploy_code w s =
     (case getitem (the_config s) ''execution'' of
        Inl e \<Rightarrow> (Inl e, s)
      | Inr ex \<Rightarrow>
          (case get_option (the_config s) ex ''main'' of
             Inl e \<Rightarrow> (Inl e, s)
           | Inr main_file \<Rightarrow>
               (case python w [main_file, ''deploy''] (msg (Deploying_code main_file) s) of
                  ((rc, out), s1) \<Rightarrow>
                    if rc \<noteq> 0 then fatal Deploy_code_failed s1 else (Inr (), s1))))"

definition deploy :: "world \<Rightarrow> bool \<Rightarrow> bool \<Rightarrow> state \<Rightarrow> unit result" where
  "deploy w code lib s =
     (case move_to_robotpy_dir s of
        (Inl e, s1) \<Rightarrow> (Inl e, s1)
      | (Inr _, s1) \<Rightarrow>
     (case load_config s1 of
        (Inl e, s2) \<Rightarrow> (Inl e, s2)
      | (Inr _, s2) \<Rightarrow>
     (case (if lib then deploy_lib w s2 else (Inr (), s2)) of
        (Inl e, s3) \<Rightarrow> (Inl e, s3)
      | (Inr _, s3) \<Rightarrow> if code then deploy_code w s3 else (Inr (), s3))))"

subsection \<open>configure\<close>

text \<open>
  \<^verbatim>\<open>
  parts = field.split(".")
  group = ".".join(parts[:-1])
  name = parts[-1]
  \<close>
\<close>

fun split_dot :: "string \<Rightarrow> string \<Rightarrow> string list" where
  "split_dot acc [] = [acc]"
| "split_dot acc (c # cs) =
     (if c = CHR ''.'' then acc # split_dot [] cs else split_dot (acc @ [c]) cs)"

fun join_dot :: "string list \<Rightarrow> string" where
  "join_dot [] = []"
| "join_dot [x] = x"
| "join_dot (x # y # ys) = x @ ''.'' @ join_dot (y # ys)"

definition field_group :: "string \<Rightarrow> string" where
  "field_group field = join_dot (butlast (split_dot [] field))"

definition field_name :: "string \<Rightarrow> string" where
  "field_name field = last (split_dot [] field)"

text \<open>
  \<^verbatim>\<open>
  if args.clear:
      if group in config and name in config[group]:
          del config[group][name]
          if len(config[group]) == 0:
              del config[group]
  \<close>
\<close>

definition configure_clear :: "string \<Rightarrow> string \<Rightarrow> state \<Rightarrow> unit result" where
  "configure_clear grp name s =
     (if contains (the_config s) grp \<and> has_option (the_config s) grp name then
        (case del_option (the_config s) grp name of
           Inl e \<Rightarrow> (Inl e, s)
         | Inr c1 \<Rightarrow>
             if length (options c1 grp) = 0 then
               (case delitem c1 grp of
                  Inl e \<Rightarrow> (Inl e, put_config c1 s)
                | Inr c2 \<Rightarrow> (Inr (), put_config c2 s))
             else (Inr (), put_config c1 s))
      else (Inr (), s))"

definition configure_set :: "string \<Rightarrow> string \<Rightarrow> string \<Rightarrow> state \<Rightarrow> unit result" where
  "configure_set grp name v s =
     (let c1 = (if \<not> contains (the_config s) grp then setitem (the_config s) grp []
                else the_config s)
      in (Inr (), put_config (set_option c1 grp name v) s))"

definition configure_get :: "string \<Rightarrow> string \<Rightarrow> state \<Rightarrow> unit result" where
  "configure_get grp name s =
     (if contains (the_config s) grp \<and> has_option (the_config s) grp name then
        (case get_option (the_config s) grp name of
           Inl e \<Rightarrow> (Inl e, s)
         | Inr v \<Rightarrow> (Inr (), s\<lparr>console := console s @ [(Output, Printed v)]\<rparr>))
      else (Inr (), s))"

definition configure :: "string \<Rightarrow> string option \<Rightarrow> bool \<Rightarrow> state \<Rightarrow> unit result" where
  "configure field val clear s =
     (case move_to_robotpy_dir s of
        (Inl e, s1) \<Rightarrow> (Inl e, s1)
      | (Inr _, s1) \<Rightarrow>
     (case load_config s1 of
        (Inl e, s2) \<Rightarrow> (Inl e, s2)
      | (Inr _, s2) \<Rightarrow>
          if CHR ''.'' \<notin> set field then (Inl (SystemExit 1), error (Invalid_field field) s2)
          else if field_group field \<in> set [''requirements'', ''requirements.deployed'']
            then (Inl (SystemExit 1), error Cannot_change_requirements s2)
          else if clear then configure_clear (field_group field) (field_name field) s2
          else (case val of
                  Some v \<Rightarrow> configure_set (field_group field) (field_name field) v s2
                | None \<Rightarrow> configure_get (field_group field) (field_name field) s2)))"


section \<open>Dispatcher\<close>

text \<open>
  The command line as \<^verbatim>\<open>argparse\<close> hands it over: the subcommand with its parsed
  arguments. The verbosity flags only choose what is printed and whether child output is
  captured; they are left out. A custom command named like a built-in one is outside the
  model.
\<close>

datatype command =
    Initialize "path option" string "string option" bool bool "string list"
  | Install "string list" bool
  | Update "string list" bool
  | Remove "string list"
  | Deploy bool bool
  | Config string "string option" bool
  | Custom string "string list"

text \<open>
  \<^verbatim>\<open>
  config = load_config()
  if "command" in config:
      commands = config["command"]
      for command in commands:
          custom = subparsers.add_parser(command)
          custom.add_argument("rest", nargs=argparse.REMAINDER)
          custom.set_defaults(func=lambda args: subprocess.run(shlex.split(commands[command]) + args.rest))
  \<close>
  The loop leaves a table of registered names and the loop variable \<^verbatim>\<open>command\<close>. The
  lambda takes no default argument, so its body reads \<^verbatim>\<open>command\<close> from the frame of
  \<^verbatim>\<open>main\<close> when it is called, after the loop has ended.
\<close>

fun register :: "string list \<Rightarrow> string list \<times> string option \<Rightarrow> string list \<times> string option" where
  "register [] (table, var) = (table, var)"
| "register (command # rest) (table, var) = register rest (table @ [command], Some command)"

definition custom_commands :: "config \<Rightarrow> string list \<times> string option" where
  "custom_commands c =
     (if contains c ''command'' then register (options c ''command'') ([], None) else ([], None))"

definition custom_func ::
  "world \<Rightarrow> (string \<Rightarrow> string list) \<Rightarrow> string option \<Rightarrow> string list \<Rightarrow> state \<Rightarrow> unit result" where
  "custom_func w shlex_split var rest s =
     (case var of
        None \<Rightarrow> (Inl NameError, s)
      | Some command \<Rightarrow>
          (case get_option (the_config s) ''command'' command of
             Inl e \<Rightarrow> (Inl e, s)
           | Inr line \<Rightarrow> (Inr (), snd (run w (Command (shlex_split line @ rest)) s))))"

text \<open>
  \<^verbatim>\<open>parser.parse_args()\<close> followed by \<^verbatim>\<open>args.func(args)\<close>: an unknown subcommand, or
  an empty package list where \<^verbatim>\<open>nargs="+"\<close> asks for one, ends the process with code 2.
\<close>

definition dispatch ::
  "world \<Rightarrow> (string \<Rightarrow> string list) \<Rightarrow> string list \<times> string option \<Rightarrow> command \<Rightarrow> state \<Rightarrow> unit result" where
  "dispatch w shlex_split reg cmd s =
     (case cmd of
        Initialize directory main_file host bare git pkgs \<Rightarrow>
          initialize w directory main_file host bare git pkgs s
      | Install pkgs download \<Rightarrow>
          if pkgs = [] then (Inl (SystemExit 2), s) else install w pkgs download s
      | Update pkgs download \<Rightarrow> update w pkgs download s
      | Remove pkgs \<Rightarrow>
          if pkgs = [] then (Inl (SystemExit 2), s) else remove pkgs s
      | Deploy code lib \<Rightarrow> deploy w code lib s
      | Config field val clear \<Rightarrow> configure field val clear s
      | Custom name rest \<Rightarrow>
          if name \<in> set (fst reg) then custom_func w shlex_split (snd reg) rest s
          else (Inl (SystemExit 2), s))"

text \<open>
  \<^verbatim>\<open>
  def main():
      if len(sys.argv) == 1:
          parser.print_help(sys.stderr)
          sys.exit(1)
      config = load_config()
      ...
      args = parser.parse_args()
      verbose_level = args.verbose_level
      args.func(args)
      with open(".robotpy", "w") as f:
          config.write(f)
  \<close>
\<close>

definition main :: "world \<Rightarrow> (string \<Rightarrow> string list) \<Rightarrow> command option \<Rightarrow> state \<Rightarrow> unit result" where
  "main w shlex_split argv s =
     (case argv of
        None \<Rightarrow> (Inl (SystemExit 1), s)
      | Some cmd \<Rightarrow>
          (case load_config s of
             (Inl e, s1) \<Rightarrow> (Inl e, s1)
           | (Inr _, s1) \<Rightarrow>
               (case dispatch w shlex_split (custom_commands (the_config s1)) cmd s1 of
                  (Inl e, s2) \<Rightarrow> (Inl e, s2)
                | (Inr _, s2) \<Rightarrow> write_file marker (Config_text (the_config s2)) s2)))"

text \<open>A fresh process: both caches empty, nothing run or printed yet.\<close>

definition start :: "path \<Rightarrow> (path \<Rightarrow> node option) \<Rightarrow> state" where
  "start d f = \<lparr>cwd = d, fs = f, config = None, packages = None, procs = [], console = [],
                parsed = [], written = []\<rparr>"


section \<open>Concrete projects\<close>

text \<open>Inputs at which the properties below are evaluated.\<close>

definition root_marker_fs :: "path \<Rightarrow> node option" where
  "root_marker_fs =
     (\<lambda>p. None)([] \<mapsto> Dir, [''a''] \<mapsto> Dir, [''.robotpy''] \<mapsto> File (Config_text empty_config))"

definition new_project_fs :: "path \<Rightarrow> node option" where
  "new_project_fs = (\<lambda>p. None)([] \<mapsto> Dir, [''proj''] \<mapsto> Dir)"

definition two_commands :: config where
  "two_commands =
     \<lparr>defaults = [], sections = [(''command'', [(''a'', ''echo A''), (''b'', ''echo B'')])]\<rparr>"

definition two_commands_fs :: "path \<Rightarrow> node option" where
  "two_commands_fs =
     (\<lambda>p. None)([] \<mapsto> Dir, [''proj''] \<mapsto> Dir,
                 [''proj'', ''.robotpy''] \<mapsto> File (Config_text two_commands))"

definition tracked_base :: config where
  "tracked_base = \<lparr>defaults = [], sections = [(''requirements'', [(''robotpy'', ''2024.1.1'')])]\<rparr>"

definition tracked_base_fs :: "path \<Rightarrow> node option" where
  "tracked_base_fs =
     (\<lambda>p. None)([] \<mapsto> Dir, [''proj''] \<mapsto> Dir,
                 [''proj'', ''.robotpy''] \<mapsto> File (Config_text tracked_base))"

text \<open>A world in which every external process succeeds and prints nothing.\<close>

definition all_succeed :: world where
  "all_succeed = (\<lambda>history p. (0, []))"

text \<open>A stand-in for \<^verbatim>\<open>shlex.split\<close> on command lines without blanks.\<close>

definition one_word :: "string \<Rightarrow> string list" where
  "one_word line = [line]"

definition auth_config :: config where
  "auth_config =
     \<lparr>defaults = [],
      sections = [(''requirements'', [(''robotpy'', ''2024.1.1'')]),
                  (''auth'', [(''hostname'', ''10.0.0.2'')])]\<rparr>"




text \<open>The package manager's upgrade call for one package.\<close>

definition pip_upgrade :: "string \<Rightarrow> proc" where
  "pip_upgrade pkg = Python [''-m'', ''pip'', ''install'', ''--upgrade'', pkg]"

text \<open>
  The parser stores every key through \<^const>\<open>optionxform\<close>: the keys a section shows are
  lower-case already.
\<close>

definition lower_keys :: "config \<Rightarrow> string \<Rightarrow> bool" where
  "lower_keys c s = list_all (\<lambda>k. optionxform k = k) (options c s)"

definition numpy_only :: config where
  "numpy_only = \<lparr>defaults = [], sections = [(''requirements'', [(''numpy'', ''1.26.0'')])]\<rparr>"

definition numpy_only_fs :: "path \<Rightarrow> node option" where
  "numpy_only_fs =
     (\<lambda>p. None)([] \<mapsto> Dir, [''proj''] \<mapsto> Dir,
                 [''proj'', ''.robotpy''] \<mapsto> File (Config_text numpy_only))"

definition base_and_numpy :: config where
  "base_and_numpy =
     \<lparr>defaults = [],
      sections = [(''requirements'', [(''robotpy'', ''2024.1.1''), (''numpy'', ''1.26.0'')])]\<rparr>"

definition base_and_numpy_fs :: "path \<Rightarrow> node option" where
  "base_and_numpy_fs =
     (\<lambda>p. None)([] \<mapsto> Dir, [''proj''] \<mapsto> Dir,
                 [''proj'', ''.robotpy''] \<mapsto> File (Config_text base_and_numpy))"






text \<open>The installer's call that pushes packages to the remote target.\<close>

definition rpinst_install :: "string list \<Rightarrow> proc" where
  "rpinst_install pkgs = Python ([''-m'', ''robotpy_installer'', ''install''] @ pkgs)"






text \<open>
  What a handler leaves alone once the configuration is loaded: the current directory,
  the marker file in it, the list of parsed files, the writes made to the marker file,
  and a filled configuration cache.
\<close>

definition marker_writes :: "path \<Rightarrow> state \<Rightarrow> (path \<times> content) list" where
  "marker_writes d s = filter (\<lambda>e. fst e = d @ [marker]) (written s)"

definition marker_kept :: "state \<Rightarrow> state \<Rightarrow> bool" where
  "marker_kept s s' =
     (cwd s' = cwd s \<and> fs s' (cwd s @ [marker]) = fs s (cwd s @ [marker]) \<and>
      parsed s' = parsed s \<and> marker_writes (cwd s) s' = marker_writes (cwd s) s \<and>
      (config s \<noteq> None \<longrightarrow> config s' \<noteq> None))"

text \<open>A command line that names no directory other than the current one.\<close>

definition stays_in_cwd :: "command \<Rightarrow> bool" where
  "stays_in_cwd cmd =
     (case cmd of Initialize (Some dir) main_file host bare git pkgs \<Rightarrow> False | _ \<Rightarrow> True)"

text \<open>
  A project with a pending requirement and an entry file, and a world in which the
  deployment of the robot code fails.
\<close>

definition deployable :: config where
  "deployable =
     \<lparr>defaults = [],
      sections = [(''requirements'', [(''robotpy'', ''2024.1.1''), (''numpy'', ''1.26.0'')]),
                  (''requirements.deployed'', [(''robotpy'', ''2024.1.1'')]),
                  (''execution'', [(''main'', ''robot.py'')])]\<rparr>"

definition deployable_fs :: "path \<Rightarrow> node option" where
  "deployable_fs =
     (\<lambda>p. None)([] \<mapsto> Dir, [''proj''] \<mapsto> Dir,
                 [''proj'', ''.robotpy''] \<mapsto> File (Config_text deployable))"

definition code_deploy_fails :: world where
  "code_deploy_fails =
     (\<lambda>history p. if p = Python [''robot.py'', ''deploy''] then (1, []) else (0, []))"

text \<open>A project with a source directory below its root.\<close>

definition subdir_fs :: "path \<Rightarrow> node option" where
  "subdir_fs =
     (\<lambda>p. None)([] \<mapsto> Dir, [''proj''] \<mapsto> Dir, [''proj'', ''src''] \<mapsto> Dir,
                 [''proj'', ''.robotpy''] \<mapsto> File (Config_text tracked_base))"


section \<open>Properties\<close>

lemmas parser_defs = empty_config_def default_section_def keys_def
  has_section_def contains_def getitem_def sectdict_def options_def is_default_def has_option_def
  get_option_def set_option_def del_option_def delitem_def clear_section_def setitem_def
  section_items_def

lemmas state_defs = msg_def warn_def error_def fatal_def run_def python_def rpinst_def isfile_def
  marker_def dirname_def chdir_parent_def read_marker_def load_config_def the_config_def
  put_config_def start_def

lemma optionxform_ROBOTPY: "optionxform ''ROBOTPY'' = ''robotpy''"
  by code_simp

lemma optionxform_robotpy: "optionxform ''robotpy'' = ''robotpy''"
  by code_simp

lemma optionxform_b: "optionxform ''b'' = ''b''"
  by code_simp

subsection \<open>Project locator\<close>

text \<open>
  Claim C6 says the locator succeeds whenever the starting directory or one of its
  ancestors, the filesystem root included, holds the marker file. The loop calls
  \<^verbatim>\<open>fatal\<close> as soon as \<^verbatim>\<open>os.chdir("..")\<close> has reached the root, before the loop
  condition looks for the marker there: with the marker in the root only and the process
  started in \<^verbatim>\<open>/a\<close>, the root does hold the marker, and the locator ends the process
  with exit code 1.
\<close>

theorem move_to_robotpy_dir_root_marker_fatal:
  "isfile (start [] root_marker_fs) marker \<and>
   fst (move_to_robotpy_dir (start [''a''] root_marker_fs)) = Inl (SystemExit 1)"
  by (simp add: move_to_robotpy_dir.simps state_defs root_marker_fs_def)

subsection \<open>initialize on a new project\<close>

text \<open>
  Claim C1 says that initialising a new project records \<^verbatim>\<open>execution.main\<close> and the
  installed version of the base package. In a fresh process the global \<^verbatim>\<open>packages\<close>
  is still \<^verbatim>\<open>None\<close> when \<^verbatim>\<open>initialize\<close> subscripts it (the call of
  \<^verbatim>\<open>load_packages\<close> is commented out): whenever the current directory has no marker
  file, \<^verbatim>\<open>robotpy init\<close> ends with a TypeError, whatever its other arguments, and
  nothing is recorded.
\<close>

theorem initialize_new_project_type_error:
  assumes "fs0 (d @ [marker]) = None"
  shows "fst (main w sh (Some (Initialize None main_file host bare git pkgs)) (start d fs0))
           = Inl TypeError"
  using assms
  by (simp add: main_def dispatch_def initialize_def resolve_target_def init_requirements_def
      state_defs)

theorem initialize_new_project_type_error_witness:
  "new_project_fs ([''proj''] @ [marker]) = None \<and>
   fst (main all_succeed one_word (Some (Initialize None ''robot.py'' None False True []))
          (start [''proj''] new_project_fs))
     = Inl TypeError"
  using initialize_new_project_type_error
          [of new_project_fs "[''proj'']" all_succeed one_word "''robot.py''" None False True "[]"]
  by (simp add: new_project_fs_def marker_def)

subsection \<open>Custom commands\<close>

text \<open>
  Claim C4 says that every entry of the \<^verbatim>\<open>command\<close> section runs its own command
  string. With the entries \<^verbatim>\<open>a = echo A\<close> and \<^verbatim>\<open>b = echo B\<close>, the subcommand
  \<^verbatim>\<open>a\<close> runs the string of \<^verbatim>\<open>b\<close>: every registered lambda reads the loop variable
  after the loop, when it names the last entry.
\<close>

theorem custom_command_runs_last_entry:
  "procs (snd (main w sh (Some (Custom ''a'' rest)) (start [''proj''] two_commands_fs)))
     = [Command (sh ''echo B'' @ rest)]"
  by (simp add: main_def dispatch_def custom_commands_def custom_func_def write_file_def
      two_commands_fs_def two_commands_def state_defs
      contains_def has_section_def options_def default_section_def sectdict_def keys_def
      get_option_def has_option_def is_default_def optionxform_b)

subsection \<open>The base package stays tracked\<close>

text \<open>
  Claim C5 says that \<^verbatim>\<open>requirements["robotpy"]\<close> is present after every handler and
  that \<^verbatim>\<open>remove\<close> refuses to delete the base package. The guard of \<^verbatim>\<open>remove\<close>
  compares the argument with \<^verbatim>\<open>"robotpy"\<close> as typed, while the parser lower-cases the
  key it looks up and deletes: \<^verbatim>\<open>robotpy remove ROBOTPY\<close> passes the guard, completes
  without an error, and leaves the \<^verbatim>\<open>requirements\<close> section without the base package,
  in memory and in the marker file.
\<close>

theorem remove_uppercase_deletes_base_package:
  "has_option tracked_base ''requirements'' ''robotpy'' \<and>
   main w sh (Some (Remove [''ROBOTPY''])) (start [''proj''] tracked_base_fs) =
     (Inr (),
      \<lparr>cwd = [''proj''],
       fs = tracked_base_fs([''proj'', ''.robotpy''] \<mapsto>
              File (Config_text \<lparr>defaults = [], sections = [(''requirements'', [])]\<rparr>)),
       config = Some \<lparr>defaults = [], sections = [(''requirements'', [])]\<rparr>,
       packages = None, procs = [], console = [],
       parsed = [[''proj'', ''.robotpy'']],
       written = [([''proj'', ''.robotpy''],
                   Config_text \<lparr>defaults = [], sections = [(''requirements'', [])]\<rparr>)]\<rparr>)"
  by (simp add: main_def dispatch_def remove_def write_file_def move_to_robotpy_dir.simps
      tracked_base_fs_def tracked_base_def state_defs
      getitem_def has_section_def default_section_def sectdict_def keys_def
      del_option_def has_option_def is_default_def optionxform_ROBOTPY optionxform_robotpy)

subsection \<open>Facts about the parser and the caches\<close>

lemma load_config_Inr:
  assumes "load_config s1 = (Inr c, s2)"
  shows "the_config s2 = c" and "config s2 = Some c" and "cwd s2 = cwd s1" and "fs s2 = fs s1"
    and "procs s2 = procs s1" and "console s2 = console s1" and "packages s2 = packages s1"
  using assms by (auto simp: load_config_def the_config_def split: option.splits sum.splits)







subsection \<open>configure --clear\<close>




subsection \<open>update\<close>

lemma optionxform_numpy: "optionxform ''numpy'' = ''numpy''"
  by code_simp

lemma optionxform_scipy: "optionxform ''scipy'' = ''scipy''"
  by code_simp

lemma the_config_warn [simp]: "the_config (warn m s) = the_config s"
  by (simp add: the_config_def warn_def)

lemma update_warn_result:
  "has_section (the_config s) ''requirements'' \<Longrightarrow>
   update_warn pkgs s =
     (Inr (), s\<lparr>console := console s @
        map (\<lambda>p. (Warning, Not_registered p))
          (filter (\<lambda>p. \<not> has_option (the_config s) ''requirements'' p) pkgs)\<rparr>)"
proof (induction pkgs arbitrary: s)
  case Nil
  then show ?case by simp
next
  case (Cons pkg pkgs)
  then show ?case
    by (simp add: getitem_def warn_def the_config_def)
qed

lemma update_tracked_result:
  "has_section c ''requirements'' \<Longrightarrow>
   update_tracked c pkgs = Inr (filter (has_option c ''requirements'') pkgs)"
  by (induction pkgs) (simp_all add: getitem_def)

lemma install_one_procs:
  assumes "pip_upgrade p \<in> set (procs (snd (install_one w download pkg s)))"
  shows "p = pkg \<or> pip_upgrade p \<in> set (procs s)"
  using assms
  by (auto simp: install_one_def python_def rpinst_def run_def msg_def error_def fatal_def
      load_packages_def record_version_def put_config_def pip_upgrade_def Let_def
      split: if_splits prod.splits sum.splits option.splits)

lemma install_loop_procs:
  "pip_upgrade p \<in> set (procs (snd (install_loop w download pkgs s))) \<Longrightarrow>
   p \<in> set pkgs \<or> pip_upgrade p \<in> set (procs s)"
proof (induction pkgs arbitrary: s)
  case Nil
  then show ?case by simp
next
  case (Cons pkg pkgs)
  obtain r s1 where one: "install_one w download pkg s = (r, s1)"
    by (cases "install_one w download pkg s")
  show ?case
  proof (cases r)
    case (Inl e)
    with Cons.prems one have "pip_upgrade p \<in> set (procs (snd (install_one w download pkg s)))"
      by simp
    then show ?thesis using install_one_procs by fastforce
  next
    case (Inr u)
    with Cons.prems one have "pip_upgrade p \<in> set (procs (snd (install_loop w download pkgs s1)))"
      by simp
    then have "p \<in> set pkgs \<or> pip_upgrade p \<in> set (procs s1)" by (rule Cons.IH)
    moreover have "pip_upgrade p \<in> set (procs s1) \<Longrightarrow> p = pkg \<or> pip_upgrade p \<in> set (procs s)"
      using install_one_procs [of p w download pkg s] one by simp
    ultimately show ?thesis by auto
  qed
qed

lemma install_package_procs:
  assumes "pip_upgrade p \<in> set (procs (snd (install_package w pkgs download s)))"
  shows "p \<in> set pkgs \<or> pip_upgrade p \<in> set (procs s)"
proof (cases "pkgs = []")
  case True
  with assms show ?thesis by (simp add: install_package_def)
next
  case False
  obtain r s1 where lc: "load_config s = (r, s1)" by (cases "load_config s")
  have ps: "procs s1 = procs s"
    using lc by (auto simp: load_config_def split: option.splits sum.splits)
  show ?thesis
  proof (cases r)
    case (Inl e)
    with assms False lc ps show ?thesis by (simp add: install_package_def)
  next
    case (Inr c)
    with assms False lc have "pip_upgrade p \<in> set (procs (snd (install_loop w download pkgs s1)))"
      by (simp add: install_package_def)
    then show ?thesis using install_loop_procs ps by fastforce
  qed
qed

text \<open>
  Claim C7, amended. \<^verbatim>\<open>update\<close> with no package names hands \<^verbatim>\<open>install_package\<close> the
  base package followed by the keys of \<^verbatim>\<open>requirements\<close>, filtered to the tracked names:
  the set handed over is exactly the set of keys in the section, and the base package is
  in it only when it is tracked. With or without names, the list handed over is the
  requested list filtered to tracked names, each untracked name gets a warning and
  nothing else, and every package-manager upgrade the handler starts is for a tracked name.
\<close>

theorem update_installs_tracked_only:
  assumes "move_to_robotpy_dir s = (Inr (), s1)" and "load_config s1 = (Inr c, s2)"
    and "has_section c ''requirements''" and "lower_keys c ''requirements''"
  shows "(\<exists>s3. update w pkgs download s =
           install_package w
             (filter (has_option c ''requirements'')
                (if pkgs = [] then ''robotpy'' # options c ''requirements'' else pkgs))
             download s3 \<and>
           config s3 = Some c \<and> procs s3 = procs s2 \<and>
           console s3 = console s2 @ map (\<lambda>p. (Warning, Not_registered p))
             (filter (\<lambda>p. \<not> has_option c ''requirements'' p)
                (if pkgs = [] then ''robotpy'' # options c ''requirements'' else pkgs))) \<and>
         set (filter (has_option c ''requirements'') (''robotpy'' # options c ''requirements''))
             = set (options c ''requirements'') \<and>
         (\<forall>p. pip_upgrade p \<in> set (procs (snd (update w pkgs download s))) \<longrightarrow>
           pip_upgrade p \<in> set (procs s2) \<or> has_option c ''requirements'' p)"
proof (intro conjI allI impI)
  let ?pkgs1 = "if pkgs = [] then ''robotpy'' # options c ''requirements'' else pkgs"
  let ?s3 = "s2\<lparr>console := console s2 @ map (\<lambda>p. (Warning, Not_registered p))
               (filter (\<lambda>p. \<not> has_option c ''requirements'' p) ?pkgs1)\<rparr>"
  have tc: "the_config s2 = c" and cs: "config s2 = Some c"
    using assms(2) by (rule load_config_Inr)+
  have ud: "update_default c pkgs = Inr ?pkgs1"
    using assms(3) by (simp add: update_default_def getitem_def)
  have uw: "update_warn ?pkgs1 s2 = (Inr (), ?s3)"
    using update_warn_result [of s2 ?pkgs1] assms(3) tc by simp
  have tc3: "the_config ?s3 = c" using tc by (simp add: the_config_def)
  have ut: "update_tracked c ?pkgs1 = Inr (filter (has_option c ''requirements'') ?pkgs1)"
    using assms(3) by (rule update_tracked_result)
  have eq: "update w pkgs download s =
              install_package w (filter (has_option c ''requirements'') ?pkgs1) download ?s3"
    using assms(1,2) ud uw ut tc tc3 by (simp add: update_def)
  show "\<exists>s3. update w pkgs download s =
           install_package w (filter (has_option c ''requirements'') ?pkgs1) download s3 \<and>
           config s3 = Some c \<and> procs s3 = procs s2 \<and>
           console s3 = console s2 @ map (\<lambda>p. (Warning, Not_registered p))
             (filter (\<lambda>p. \<not> has_option c ''requirements'' p) ?pkgs1)"
    using eq cs by (intro exI [of _ ?s3]) simp
  have nd: "\<not> is_default ''requirements''" by (simp add: is_default_def default_section_def)
  have vis: "has_option c ''requirements'' k" if "k \<in> set (options c ''requirements'')" for k
  proof -
    have "optionxform k = k"
      using assms(4) that by (simp add: lower_keys_def list_all_iff)
    then show ?thesis
      using that assms(3) nd
      by (auto simp: has_option_def options_def default_section_def split: if_splits)
  qed
  have base: "''robotpy'' \<in> set (options c ''requirements'')" if "has_option c ''requirements'' ''robotpy''"
    using that nd assms(3)
    by (auto simp: has_option_def options_def default_section_def optionxform_robotpy split: if_splits)
  show "set (filter (has_option c ''requirements'') (''robotpy'' # options c ''requirements''))
             = set (options c ''requirements'')"
    using vis base by auto
  show "pip_upgrade p \<in> set (procs s2) \<or> has_option c ''requirements'' p"
    if "pip_upgrade p \<in> set (procs (snd (update w pkgs download s)))" for p
    using install_package_procs [of p w "filter (has_option c ''requirements'') ?pkgs1" download ?s3]
      that eq by auto
qed

theorem update_installs_tracked_only_witness:
  "move_to_robotpy_dir (start [''proj''] base_and_numpy_fs) = (Inr (), start [''proj''] base_and_numpy_fs) \<and>
   load_config (start [''proj''] base_and_numpy_fs)
     = (Inr base_and_numpy, (start [''proj''] base_and_numpy_fs)\<lparr>config := Some base_and_numpy, parsed := [[''proj'', ''.robotpy'']]\<rparr>) \<and>
   has_section base_and_numpy ''requirements'' \<and> lower_keys base_and_numpy ''requirements'' \<and>
   set (filter (has_option base_and_numpy ''requirements'')
          (''robotpy'' # options base_and_numpy ''requirements'')) = {''robotpy'', ''numpy''} \<and>
   pip_upgrade ''scipy'' \<notin> set (procs (snd (update all_succeed [] False (start [''proj''] base_and_numpy_fs))))"
proof -
  let ?s = "start [''proj''] base_and_numpy_fs"
  have m: "move_to_robotpy_dir ?s = (Inr (), ?s)"
    by (simp add: move_to_robotpy_dir.simps state_defs base_and_numpy_fs_def)
  have l: "load_config ?s = (Inr base_and_numpy, ?s\<lparr>config := Some base_and_numpy, parsed := [[''proj'', ''.robotpy'']]\<rparr>)"
    by (simp add: state_defs base_and_numpy_fs_def)
  have hs: "has_section base_and_numpy ''requirements''"
    by (simp add: has_section_def base_and_numpy_def)
  have op: "options base_and_numpy ''requirements'' = [''robotpy'', ''numpy'']"
    by (simp add: options_def sectdict_def keys_def base_and_numpy_def default_section_def)
  have lk: "lower_keys base_and_numpy ''requirements''"
    by (simp add: lower_keys_def op optionxform_robotpy optionxform_numpy)
  have st: "set (filter (has_option base_and_numpy ''requirements'')
          (''robotpy'' # options base_and_numpy ''requirements'')) = {''robotpy'', ''numpy''}"
    and al: "\<forall>p. pip_upgrade p \<in> set (procs (snd (update all_succeed [] False ?s)))
      \<longrightarrow> has_option base_and_numpy ''requirements'' p"
    using update_installs_tracked_only
            [OF m l hs lk, where w = all_succeed and pkgs = "[]" and download = False]
    by (auto simp: op start_def)
  have "\<not> has_option base_and_numpy ''requirements'' ''scipy''"
    by (simp add: has_option_def is_default_def default_section_def has_section_def sectdict_def
        keys_def base_and_numpy_def optionxform_scipy)
  with al have no: "pip_upgrade ''scipy'' \<notin> set (procs (snd (update all_succeed [] False ?s)))"
    by blast
  from m l hs lk st no show ?thesis by blast
qed

text \<open>
  Claim C7 as stated fails where the base package is not tracked (a state the tool itself
  reaches, since \<^verbatim>\<open>remove\<close> deletes it under another spelling): with only \<^verbatim>\<open>numpy\<close>
  in \<^verbatim>\<open>requirements\<close>, \<^verbatim>\<open>update\<close> without names hands over \<^verbatim>\<open>numpy\<close> alone and the
  base package is not installed, so the set handed over is not the base package plus the
  keys.
\<close>

theorem update_untracked_base_counterexample:
  "update_tracked numpy_only (''robotpy'' # options numpy_only ''requirements'') = Inr [''numpy''] \<and>
   set [''numpy''] \<noteq> insert ''robotpy'' (set (options numpy_only ''requirements'')) \<and>
   procs (snd (update all_succeed [] False (start [''proj''] numpy_only_fs))) = [pip_upgrade ''numpy'']"
proof -
  have op: "options numpy_only ''requirements'' = [''numpy'']"
    by (simp add: options_def sectdict_def keys_def numpy_only_def default_section_def)
  have a: "update_tracked numpy_only (''robotpy'' # options numpy_only ''requirements'') = Inr [''numpy'']"
    by code_simp
  have b: "procs (snd (update all_succeed [] False (start [''proj''] numpy_only_fs))) = [pip_upgrade ''numpy'']"
    by code_simp
  from a b show ?thesis by (simp add: op)
qed

subsection \<open>install\<close>







subsection \<open>deploy\<close>













text \<open>
  The comment at the head of \<^verbatim>\<open>deploy\<close> promises that every requirement is pushed when
  the section \<^verbatim>\<open>requirements.deployed\<close> does not exist. The handler subscripts the
  configuration with that name first, so in a project that has never been deployed it
  stops with a KeyError.
\<close>

lemma deploy_without_deployed_section:
  "fst (deploy all_succeed False True (start [''proj''] tracked_base_fs))
     = Inl (KeyError ''requirements.deployed'')"
  by code_simp

subsection \<open>initialize on an existing project\<close>





lemma write_file_frame:
  assumes "write_file name body s = (r, s')"
  shows "config s' = config s" and "console s' = console s" and "procs s' = procs s"
  using assms by (auto simp: write_file_def split: if_splits)









subsection \<open>The configuration's life cycle\<close>

lemma marker_kept_refl: "marker_kept s s"
  by (simp add: marker_kept_def)

lemma marker_kept_trans: "marker_kept s s1 \<Longrightarrow> marker_kept s1 s2 \<Longrightarrow> marker_kept s s2"
  by (auto simp: marker_kept_def)

lemma marker_kept_isfile: "marker_kept s s' \<Longrightarrow> isfile s' marker = isfile s marker"
  by (simp add: marker_kept_def isfile_def)

lemma marker_kept_config: "marker_kept s s' \<Longrightarrow> config s \<noteq> None \<Longrightarrow> config s' \<noteq> None"
  by (simp add: marker_kept_def)

lemma marker_kept_print:
  "marker_kept s (msg m s)" "marker_kept s (warn m s)" "marker_kept s (error m s)"
  "marker_kept s (snd (fatal m s))" "marker_kept s (s\<lparr>console := x\<rparr>)"
  by (simp_all add: marker_kept_def marker_writes_def msg_def warn_def error_def fatal_def)

lemma marker_kept_put_config: "marker_kept s (put_config c s)"
  by (simp add: marker_kept_def marker_writes_def put_config_def)

lemma marker_kept_run:
  "marker_kept s (snd (run w p s))" "marker_kept s (snd (python w args s))"
  "marker_kept s (snd (rpinst w args s))"
  by (simp_all add: marker_kept_def marker_writes_def run_def python_def rpinst_def)

lemma load_config_cached: "config s \<noteq> None \<Longrightarrow> load_config s = (Inr (the_config s), s)"
  by (auto simp: load_config_def the_config_def)

lemma move_to_robotpy_dir_at_marker: "isfile s marker \<Longrightarrow> move_to_robotpy_dir s = (Inr (), s)"
  by (simp add: move_to_robotpy_dir.simps)

lemma marker_kept_load_packages: "marker_kept s (snd (load_packages w refresh s))"
  by (auto simp: case_prod_beta load_packages_def Let_def marker_kept_def marker_writes_def python_def run_def
      fatal_def split: option.splits)

lemma marker_kept_record_version: "marker_kept s (snd (record_version pkg pk s))"
  by (auto simp: record_version_def marker_kept_def marker_writes_def put_config_def
      split: option.splits sum.splits)

lemma marker_kept_install_one: "marker_kept s (snd (install_one w download pkg s))"
proof -
  let ?s0 = "msg (Installing pkg) s"
  let ?s1 = "snd (python w [''-m'', ''pip'', ''install'', ''--upgrade'', pkg] ?s0)"
  let ?s2 = "snd (rpinst w [''download'', pkg] (msg (Downloading pkg) ?s1))"
  let ?s3 = "snd (load_packages w True ?s2)"
  have k1: "marker_kept s ?s1"
    by (rule marker_kept_trans [OF marker_kept_print(1) marker_kept_run(2)])
  have k2: "marker_kept s ?s2"
    by (rule marker_kept_trans [OF k1 marker_kept_trans [OF marker_kept_print(1) marker_kept_run(3)]])
  have k3: "marker_kept s ?s3"
    by (rule marker_kept_trans [OF k2 marker_kept_load_packages])
  have k4: "marker_kept s (snd (record_version pkg pk ?s3))" for pk
    by (rule marker_kept_trans [OF k3 marker_kept_record_version])
  have e1: "marker_kept s (error Install_failed ?s1)"
    by (rule marker_kept_trans [OF k1 marker_kept_print(3)])
  have e2: "marker_kept s (error Download_failed ?s2)"
    by (rule marker_kept_trans [OF k2 marker_kept_print(3)])
  show ?thesis
    using k1 k2 k3 k4 e1 e2
    by (auto simp: case_prod_beta install_one_def split: sum.splits)
qed

lemma marker_kept_install_loop: "marker_kept s (snd (install_loop w download pkgs s))"
proof (induction pkgs arbitrary: s)
  case Nil
  show ?case by (simp add: marker_kept_refl)
next
  case (Cons pkg pkgs)
  obtain r s1 where i: "install_one w download pkg s = (r, s1)"
    by (cases "install_one w download pkg s")
  have k: "marker_kept s s1" using marker_kept_install_one [of s w download pkg] i by simp
  show ?case
  proof (cases r)
    case (Inl e)
    then show ?thesis using i k by simp
  next
    case (Inr u)
    then show ?thesis using i marker_kept_trans [OF k Cons.IH [of s1]] by simp
  qed
qed

lemma marker_kept_install_package:
  "config s \<noteq> None \<Longrightarrow> marker_kept s (snd (install_package w pkgs download s))"
  by (simp add: install_package_def load_config_cached marker_kept_refl marker_kept_install_loop)

lemma marker_kept_install:
  "isfile s marker \<Longrightarrow> config s \<noteq> None \<Longrightarrow> marker_kept s (snd (install w pkgs download s))"
  by (simp add: install_def move_to_robotpy_dir_at_marker marker_kept_install_package)

lemma marker_kept_remove_loop: "marker_kept s (snd (remove_loop pkgs s))"
proof (induction pkgs arbitrary: s)
  case Nil
  show ?case by (simp add: marker_kept_refl)
next
  case (Cons pkg pkgs)
  have a: "marker_kept s (snd (remove_loop pkgs (error m s)))" for m
    by (rule marker_kept_trans [OF marker_kept_print(3) Cons.IH])
  have b: "marker_kept s (snd (remove_loop pkgs (put_config c s)))" for c
    by (rule marker_kept_trans [OF marker_kept_put_config Cons.IH])
  show ?case using a b by (auto simp: marker_kept_refl split: sum.splits)
qed

lemma marker_kept_remove:
  "isfile s marker \<Longrightarrow> config s \<noteq> None \<Longrightarrow> marker_kept s (snd (remove pkgs s))"
  by (simp add: remove_def move_to_robotpy_dir_at_marker load_config_cached marker_kept_remove_loop)

lemma marker_kept_update_warn: "marker_kept s (snd (update_warn pkgs s))"
proof (induction pkgs arbitrary: s)
  case Nil
  show ?case by (simp add: marker_kept_refl)
next
  case (Cons pkg pkgs)
  have a: "marker_kept s (snd (update_warn pkgs (warn m s)))" for m
    by (rule marker_kept_trans [OF marker_kept_print(2) Cons.IH])
  show ?case using a Cons.IH [of s] by (auto simp: marker_kept_refl split: sum.splits)
qed

lemma marker_kept_update:
  assumes "isfile s marker" and "config s \<noteq> None"
  shows "marker_kept s (snd (update w pkgs download s))"
proof -
  have k: "marker_kept s (snd (install_package w pkgs2 download (snd (update_warn pkgs1 s))))"
    for pkgs1 pkgs2
    by (rule marker_kept_trans [OF marker_kept_update_warn marker_kept_install_package])
      (rule marker_kept_config [OF marker_kept_update_warn assms(2)])
  show ?thesis
    using k marker_kept_update_warn [of s] assms
    by (auto simp: case_prod_beta update_def move_to_robotpy_dir_at_marker load_config_cached marker_kept_refl
        split: sum.splits)
qed

lemma marker_kept_deploy_lib: "marker_kept s (snd (deploy_lib w s))"
proof -
  let ?s1 = "snd (rpinst w (''install'' # updates) (msg Updating_remote (msg Requirements_updated s)))"
  have k: "marker_kept s (snd (rpinst w args (msg Updating_remote (msg Requirements_updated s))))"
    for args
    by (rule marker_kept_trans [OF marker_kept_print(1)
          marker_kept_trans [OF marker_kept_print(1) marker_kept_run(3)]])
  have f: "marker_kept s (snd (fatal m (snd (rpinst w args (msg Updating_remote (msg Requirements_updated s))))))"
    for args m
    by (rule marker_kept_trans [OF k marker_kept_print(4)])
  have p: "marker_kept s (put_config c (snd (rpinst w args (msg Updating_remote (msg Requirements_updated s)))))"
    for args c
    by (rule marker_kept_trans [OF k marker_kept_put_config])
  show ?thesis
    using f p
    by (auto simp: case_prod_beta deploy_lib_def marker_kept_refl split: sum.splits)
qed

lemma marker_kept_deploy_code: "marker_kept s (snd (deploy_code w s))"
proof -
  have k: "marker_kept s (snd (python w args (msg m s)))" for args m
    by (rule marker_kept_trans [OF marker_kept_print(1) marker_kept_run(2)])
  have f: "marker_kept s (snd (fatal m' (snd (python w args (msg m s)))))" for args m m'
    by (rule marker_kept_trans [OF k marker_kept_print(4)])
  show ?thesis
    using k f
    by (auto simp: case_prod_beta deploy_code_def marker_kept_refl split: sum.splits)
qed

lemma marker_kept_deploy:
  assumes "isfile s marker" and "config s \<noteq> None"
  shows "marker_kept s (snd (deploy w code lib s))"
proof -
  have k: "marker_kept s (snd (deploy_code w (snd (deploy_lib w s))))"
    by (rule marker_kept_trans [OF marker_kept_deploy_lib marker_kept_deploy_code])
  show ?thesis
    using k marker_kept_deploy_lib [of s w] marker_kept_deploy_code [of s w] assms
    by (auto simp: case_prod_beta deploy_def move_to_robotpy_dir_at_marker load_config_cached marker_kept_refl
        split: sum.splits)
qed

lemma marker_kept_configure:
  assumes "isfile s marker" and "config s \<noteq> None"
  shows "marker_kept s (snd (configure field val clear s))"
proof -
  have a: "marker_kept s (snd (configure_clear grp name s))" for grp name
    by (auto simp: configure_clear_def marker_kept_refl marker_kept_put_config split: sum.splits)
  have b: "marker_kept s (snd (configure_set grp name v s))" for grp name v
    by (simp add: configure_set_def Let_def marker_kept_put_config)
  have c: "marker_kept s (snd (configure_get grp name s))" for grp name
    by (auto simp: configure_get_def marker_kept_refl marker_kept_print split: sum.splits)
  show ?thesis
    using a b c assms
    by (auto simp: configure_def move_to_robotpy_dir_at_marker load_config_cached
        marker_kept_print split: option.splits)
qed

lemma marker_kept_custom_func: "marker_kept s (snd (custom_func w sh var rest s))"
  by (auto simp: custom_func_def marker_kept_refl marker_kept_run split: option.splits sum.splits)

lemma marker_kept_write_file:
  "name \<noteq> marker \<Longrightarrow> marker_kept s (snd (write_file name body s))"
  by (simp add: write_file_def marker_kept_def marker_writes_def)

lemma marker_kept_init_host: "marker_kept s (snd (init_host host s))"
proof (cases host)
  case None
  then show ?thesis by (simp add: init_host_def marker_kept_refl)
next
  case (Some h)
  have n: "''.deploy_cfg'' \<noteq> marker" "''.installer_cfg'' \<noteq> marker"
    by (simp_all add: marker_def)
  let ?s1 = "snd (write_file ''.deploy_cfg'' (Text (auth_text h)) s)"
  let ?s2 = "snd (write_file ''.installer_cfg'' (Text (auth_text h)) ?s1)"
  have k1: "marker_kept s ?s1" by (rule marker_kept_write_file [OF n(1)])
  have k2: "marker_kept s ?s2"
    by (rule marker_kept_trans [OF k1 marker_kept_write_file [OF n(2)]])
  have k3: "marker_kept s (put_config c ?s2)" for c
    by (rule marker_kept_trans [OF k2 marker_kept_put_config])
  show ?thesis
    using Some k1 k2 k3 by (auto simp: case_prod_beta init_host_def split: sum.splits)
qed

lemma marker_kept_init_main_file:
  "isfile s marker \<Longrightarrow> marker_kept s (snd (init_main_file bare main_file s))"
  by (cases "main_file = marker")
    (auto simp: init_main_file_def marker_kept_refl marker_kept_print marker_kept_write_file)

lemma marker_kept_init_downloads:
  assumes "config s \<noteq> None"
  shows "marker_kept s (snd (init_downloads w pkgs s))"
proof -
  let ?s1 = "snd (rpinst w [''download-python''] (msg Downloading_python s))"
  let ?s2 = "snd (rpinst w [''download'', ''robotpy''] (msg Downloading_robotpy ?s1))"
  have k1: "marker_kept s ?s1"
    by (rule marker_kept_trans [OF marker_kept_print(1) marker_kept_run(3)])
  have k2: "marker_kept s ?s2"
    by (rule marker_kept_trans [OF k1 marker_kept_trans [OF marker_kept_print(1) marker_kept_run(3)]])
  have f1: "marker_kept s (snd (fatal m ?s1))" for m
    by (rule marker_kept_trans [OF k1 marker_kept_print(4)])
  have f2: "marker_kept s (snd (fatal m ?s2))" for m
    by (rule marker_kept_trans [OF k2 marker_kept_print(4)])
  have c2: "config ?s2 \<noteq> None" by (rule marker_kept_config [OF k2 assms])
  have k3: "marker_kept s (snd (install_package w ps True ?s2))" for ps
    by (rule marker_kept_trans [OF k2 marker_kept_install_package [OF c2]])
  show ?thesis
    using f1 f2 k3 by (auto simp: case_prod_beta init_downloads_def)
qed

lemma marker_kept_initialize:
  assumes "isfile s marker" and "config s \<noteq> None"
  shows "marker_kept s (snd (initialize w None main_file host bare git pkgs s))"
proof -
  have r: "resolve_target None s = (Inr (cwd s), s)" by (simp add: resolve_target_def)
  have l: "load_config s = (Inr (the_config s), s)"
    by (rule load_config_cached [OF assms(2)])
  have q: "init_requirements (cwd s) s = (Inr (), msg (Marker_exists (cwd s)) s)"
    using assms(1) by (simp add: init_requirements_def)
  let ?s3 = "msg (Marker_exists (cwd s)) s"
  let ?s3' = "put_config (setitem (the_config ?s3) ''execution'' [(''main'', main_file)]) ?s3"
  let ?s4 = "snd (init_host host ?s3')"
  let ?s5 = "snd (init_main_file bare main_file ?s4)"
  let ?s6 = "if git then snd (run w (Command [''git'', ''init'']) ?s5) else ?s5"
  have k3: "marker_kept s ?s3'"
    by (rule marker_kept_trans [OF marker_kept_print(1) marker_kept_put_config])
  have k4: "marker_kept s ?s4" by (rule marker_kept_trans [OF k3 marker_kept_init_host])
  have i4: "isfile ?s4 marker" using marker_kept_isfile [OF k4] assms(1) by simp
  have k5: "marker_kept s ?s5"
    by (rule marker_kept_trans [OF k4 marker_kept_init_main_file [OF i4]])
  have k6: "marker_kept s ?s6"
    using k5 marker_kept_trans [OF k5 marker_kept_run(1)] by simp
  have c6: "config ?s6 \<noteq> None" by (rule marker_kept_config [OF k6 assms(2)])
  have k7: "marker_kept s (snd (init_downloads w pkgs ?s6))"
    by (rule marker_kept_trans [OF k6 marker_kept_init_downloads [OF c6]])
  show ?thesis
    using k4 k5 k7 by (auto simp: initialize_def r l q case_prod_beta split: sum.splits)
qed

lemma marker_kept_dispatch:
  assumes "isfile s marker" and "config s \<noteq> None" and "stays_in_cwd cmd"
  shows "marker_kept s (snd (dispatch w sh reg cmd s))"
proof (cases cmd)
  case (Initialize directory main_file host bare git pkgs)
  then have "directory = None" using assms(3) by (cases directory) (simp_all add: stays_in_cwd_def)
  then show ?thesis
    using Initialize marker_kept_initialize [OF assms(1,2)] by (simp add: dispatch_def)
next
  case (Install pkgs download)
  then show ?thesis
    using marker_kept_install [OF assms(1,2)] by (simp add: dispatch_def marker_kept_refl)
next
  case (Update pkgs download)
  then show ?thesis using marker_kept_update [OF assms(1,2)] by (simp add: dispatch_def)
next
  case (Remove pkgs)
  then show ?thesis
    using marker_kept_remove [OF assms(1,2)] by (simp add: dispatch_def marker_kept_refl)
next
  case (Deploy code lib)
  then show ?thesis using marker_kept_deploy [OF assms(1,2)] by (simp add: dispatch_def)
next
  case (Config field val clear)
  then show ?thesis using marker_kept_configure [OF assms(1,2)] by (simp add: dispatch_def)
next
  case (Custom name rest)
  then show ?thesis
    using marker_kept_custom_func by (simp add: dispatch_def marker_kept_refl)
qed

text \<open>
  Claim C2, amended. For an invocation started in the project root (the directory that
  holds the marker file) whose command names no other directory: the marker file there is
  parsed exactly once, the handler runs on the configuration parsed from it and neither
  parses again nor writes the marker file, nor leaves the directory; when the handler
  completes, the full in-memory configuration is written to that marker file exactly
  once, at the end; when the handler ends the process (a fatal error, a validation exit,
  an exception), nothing is written and the marker file keeps what it held. Loading where
  no marker file exists gives the empty configuration.
\<close>

theorem main_loads_once_saves_once:
  "(f (d @ [marker]) = None \<longrightarrow>
      load_config (start d f)
        = (Inr empty_config,
           (start d f)\<lparr>config := Some empty_config, parsed := [d @ [marker]]\<rparr>)) \<and>
   (f (d @ [marker]) = Some (File (Config_text c)) \<and> stays_in_cwd cmd \<longrightarrow>
      (\<exists>r s2.
         dispatch w sh (custom_commands c) cmd
           ((start d f)\<lparr>config := Some c, parsed := [d @ [marker]]\<rparr>) = (r, s2) \<and>
         cwd s2 = d \<and> parsed s2 = [d @ [marker]] \<and> marker_writes d s2 = [] \<and>
         fs s2 (d @ [marker]) = Some (File (Config_text c)) \<and>
         main w sh (Some cmd) (start d f) =
           (case r of
              Inl e \<Rightarrow> (Inl e, s2)
            | Inr u \<Rightarrow>
                (Inr (),
                 s2\<lparr>fs := (fs s2)(d @ [marker] \<mapsto> File (Config_text (the_config s2))),
                    written := written s2 @ [(d @ [marker], Config_text (the_config s2))]\<rparr>))))"
proof (intro conjI impI)
  assume "f (d @ [marker]) = None"
  then show "load_config (start d f)
        = (Inr empty_config,
           (start d f)\<lparr>config := Some empty_config, parsed := [d @ [marker]]\<rparr>)"
    by (simp add: load_config_def read_marker_def start_def)
next
  assume a: "f (d @ [marker]) = Some (File (Config_text c)) \<and> stays_in_cwd cmd"
  let ?s1 = "(start d f)\<lparr>config := Some c, parsed := [d @ [marker]]\<rparr>"
  have l: "load_config (start d f) = (Inr c, ?s1)"
    using a by (simp add: load_config_def read_marker_def start_def)
  have i: "isfile ?s1 marker" using a by (simp add: isfile_def start_def)
  have n: "config ?s1 \<noteq> None" by simp
  have tc: "the_config ?s1 = c" by (simp add: the_config_def)
  obtain r s2 where ds: "dispatch w sh (custom_commands c) cmd ?s1 = (r, s2)"
    by (cases "dispatch w sh (custom_commands c) cmd ?s1")
  have "marker_kept ?s1 s2"
    using marker_kept_dispatch [OF i n, of cmd w sh "custom_commands c"] a ds by simp
  then have k: "cwd s2 = d" "parsed s2 = [d @ [marker]]" "marker_writes d s2 = []"
    "fs s2 (d @ [marker]) = Some (File (Config_text c))"
    using a by (simp_all add: marker_kept_def marker_writes_def start_def)
  have m: "main w sh (Some cmd) (start d f) =
           (case r of
              Inl e \<Rightarrow> (Inl e, s2)
            | Inr u \<Rightarrow>
                (Inr (),
                 s2\<lparr>fs := (fs s2)(d @ [marker] \<mapsto> File (Config_text (the_config s2))),
                    written := written s2 @ [(d @ [marker], Config_text (the_config s2))]\<rparr>))"
    using k by (simp add: main_def l tc ds write_file_def split: sum.splits)
  from ds k m show "\<exists>r s2.
         dispatch w sh (custom_commands c) cmd ?s1 = (r, s2) \<and>
         cwd s2 = d \<and> parsed s2 = [d @ [marker]] \<and> marker_writes d s2 = [] \<and>
         fs s2 (d @ [marker]) = Some (File (Config_text c)) \<and>
         main w sh (Some cmd) (start d f) =
           (case r of
              Inl e \<Rightarrow> (Inl e, s2)
            | Inr u \<Rightarrow>
                (Inr (),
                 s2\<lparr>fs := (fs s2)(d @ [marker] \<mapsto> File (Config_text (the_config s2))),
                    written := written s2 @ [(d @ [marker], Config_text (the_config s2))]\<rparr>))"
    by blast
qed

theorem main_loads_once_saves_once_witness:
  "new_project_fs ([''proj''] @ [marker]) = None \<and>
   load_config (start [''proj''] new_project_fs)
     = (Inr empty_config,
        (start [''proj''] new_project_fs)\<lparr>config := Some empty_config,
                                           parsed := [[''proj''] @ [marker]]\<rparr>) \<and>
   tracked_base_fs ([''proj''] @ [marker]) = Some (File (Config_text tracked_base)) \<and>
   stays_in_cwd (Config ''auth.hostname'' (Some ''10.0.0.2'') False) \<and>
   fst (main all_succeed one_word (Some (Config ''auth.hostname'' (Some ''10.0.0.2'') False))
          (start [''proj''] tracked_base_fs)) = Inr () \<and>
   the_config (snd (main all_succeed one_word (Some (Config ''auth.hostname'' (Some ''10.0.0.2'') False))
          (start [''proj''] tracked_base_fs))) = auth_config \<and>
   parsed (snd (main all_succeed one_word (Some (Config ''auth.hostname'' (Some ''10.0.0.2'') False))
          (start [''proj''] tracked_base_fs))) = [[''proj'', ''.robotpy'']] \<and>
   marker_writes [''proj'']
     (snd (main all_succeed one_word (Some (Config ''auth.hostname'' (Some ''10.0.0.2'') False))
          (start [''proj''] tracked_base_fs))) = [([''proj'', ''.robotpy''], Config_text auth_config)] \<and>
   fs (snd (main all_succeed one_word (Some (Config ''auth.hostname'' (Some ''10.0.0.2'') False))
          (start [''proj''] tracked_base_fs))) [''proj'', ''.robotpy'']
     = Some (File (Config_text auth_config))"
proof -
  let ?cmd = "Config ''auth.hostname'' (Some ''10.0.0.2'') False"
  let ?s0 = "start [''proj''] tracked_base_fs"
  let ?s1 = "?s0\<lparr>config := Some tracked_base, parsed := [[''proj''] @ [marker]]\<rparr>"
  have a: "new_project_fs ([''proj''] @ [marker]) = None"
    by (simp add: new_project_fs_def marker_def)
  have b: "tracked_base_fs ([''proj''] @ [marker]) = Some (File (Config_text tracked_base))"
    by (simp add: tracked_base_fs_def marker_def)
  have c: "stays_in_cwd ?cmd" by (simp add: stays_in_cwd_def)
  note inst = main_loads_once_saves_once
    [where f = tracked_base_fs and d = "[''proj'']" and c = tracked_base and cmd = ?cmd
       and w = all_succeed and sh = one_word]
  have l: "load_config (start [''proj''] new_project_fs)
     = (Inr empty_config,
        (start [''proj''] new_project_fs)\<lparr>config := Some empty_config,
                                           parsed := [[''proj''] @ [marker]]\<rparr>)"
    using main_loads_once_saves_once [where f = new_project_fs and d = "[''proj'']"] a by blast
  from inst b c obtain r s2 where
    ds: "dispatch all_succeed one_word (custom_commands tracked_base) ?cmd ?s1 = (r, s2)"
    and k: "parsed s2 = [[''proj''] @ [marker]]" "marker_writes [''proj''] s2 = []"
    and m: "main all_succeed one_word (Some ?cmd) ?s0 =
           (case r of
              Inl e \<Rightarrow> (Inl e, s2)
            | Inr u \<Rightarrow>
                (Inr (),
                 s2\<lparr>fs := (fs s2)([''proj''] @ [marker] \<mapsto> File (Config_text (the_config s2))),
                    written := written s2 @ [([''proj''] @ [marker], Config_text (the_config s2))]\<rparr>))"
    by blast
  have "fst (dispatch all_succeed one_word (custom_commands tracked_base) ?cmd ?s1) = Inr ()"
    by code_simp
  then have r: "r = Inr ()" using ds by simp
  have "the_config (snd (dispatch all_succeed one_word (custom_commands tracked_base) ?cmd ?s1))
          = auth_config"
    by code_simp
  then have t: "the_config s2 = auth_config" using ds by simp
  have e: "main all_succeed one_word (Some ?cmd) ?s0 =
     (Inr (),
      s2\<lparr>fs := (fs s2)([''proj''] @ [marker] \<mapsto> File (Config_text auth_config)),
         written := written s2 @ [([''proj''] @ [marker], Config_text auth_config)]\<rparr>)"
    using m r t by simp
  have "fst (main all_succeed one_word (Some ?cmd) ?s0) = Inr ()"
    and "the_config (snd (main all_succeed one_word (Some ?cmd) ?s0)) = auth_config"
    and "parsed (snd (main all_succeed one_word (Some ?cmd) ?s0)) = [[''proj'', ''.robotpy'']]"
    and "marker_writes [''proj''] (snd (main all_succeed one_word (Some ?cmd) ?s0))
           = [([''proj'', ''.robotpy''], Config_text auth_config)]"
    and "fs (snd (main all_succeed one_word (Some ?cmd) ?s0)) [''proj'', ''.robotpy'']
           = Some (File (Config_text auth_config))"
    using k t by (simp_all add: e the_config_def marker_writes_def marker_def)
  with a l b c show ?thesis by blast
qed

text \<open>
  Claim C2 as stated fails for an invocation that ends in a fatal error: \<^verbatim>\<open>fatal\<close>
  leaves the process at once, before \<^verbatim>\<open>main\<close> reaches the write. A deploy whose
  library step has pushed \<^verbatim>\<open>numpy\<close> and whose code step then fails exits with code 1:
  the in-memory configuration holds the new deployed snapshot, no file has been written,
  and the marker file still holds the old one.
\<close>

theorem main_fatal_exit_skips_save_counterexample:
  "fst (main code_deploy_fails one_word (Some (Deploy True True)) (start [''proj''] deployable_fs))
     = Inl (SystemExit 1) \<and>
   procs (snd (main code_deploy_fails one_word (Some (Deploy True True)) (start [''proj''] deployable_fs)))
     = [rpinst_install [''numpy''], Python [''robot.py'', ''deploy'']] \<and>
   sectdict (the_config (snd (main code_deploy_fails one_word (Some (Deploy True True))
                                (start [''proj''] deployable_fs)))) ''requirements.deployed''
     = [(''robotpy'', ''2024.1.1''), (''numpy'', ''1.26.0'')] \<and>
   written (snd (main code_deploy_fails one_word (Some (Deploy True True)) (start [''proj''] deployable_fs)))
     = [] \<and>
   fs (snd (main code_deploy_fails one_word (Some (Deploy True True)) (start [''proj''] deployable_fs)))
      [''proj'', ''.robotpy'']
     = Some (File (Config_text deployable))"
  by code_simp

text \<open>
  Outside the amended claim: \<^verbatim>\<open>main\<close> calls \<^verbatim>\<open>load_config()\<close> before the handler
  has moved to the project root, so an invocation started in a subdirectory parses the
  marker file of that subdirectory. There is none, the configuration starts empty, and
  the write at the end replaces the project's marker file: after
  \<^verbatim>\<open>robotpy config auth.hostname 10.0.0.2\<close> in \<^verbatim>\<open>proj/src\<close> the requirements of
  \<^verbatim>\<open>proj\<close> are gone.
\<close>

lemma main_in_subdirectory_replaces_project_config:
  "fst (main all_succeed one_word (Some (Config ''auth.hostname'' (Some ''10.0.0.2'') False))
          (start [''proj'', ''src''] subdir_fs)) = Inr () \<and>
   cwd (snd (main all_succeed one_word (Some (Config ''auth.hostname'' (Some ''10.0.0.2'') False))
          (start [''proj'', ''src''] subdir_fs))) = [''proj''] \<and>
   parsed (snd (main all_succeed one_word (Some (Config ''auth.hostname'' (Some ''10.0.0.2'') False))
          (start [''proj'', ''src''] subdir_fs))) = [[''proj'', ''src'', ''.robotpy'']] \<and>
   subdir_fs [''proj'', ''.robotpy''] = Some (File (Config_text tracked_base)) \<and>
   fs (snd (main all_succeed one_word (Some (Config ''auth.hostname'' (Some ''10.0.0.2'') False))
          (start [''proj'', ''src''] subdir_fs))) [''proj'', ''.robotpy'']
     = Some (File (Config_text
         \<lparr>defaults = [], sections = [(''auth'', [(''hostname'', ''10.0.0.2'')])]\<rparr>))"
  by code_simp

end
